theory Spec2Isabelle
  imports Main
begin

section \<open>Python values, exceptions and dictionaries\<close>

text \<open>
  The exceptions that \<^verbatim>\<open>handler.py\<close> can raise or let through. A function that may raise
  returns \<open>error + 'a\<close>, with \<open>Inl\<close> for the exception.
\<close>

datatype error = KeyError | IndexError | TypeError | ValueError | AttributeError | TimeoutError

text \<open>The values found in the tuples of \<^verbatim>\<open>flow.fields\<close>.\<close>

datatype pyval = PStr string | PBool bool | PNone

text \<open>
  A Python \<^verbatim>\<open>dict\<close> keeps its keys in insertion order, and \<^verbatim>\<open>zip(d.keys(), ...)\<close> depends on
  that order, so a dictionary is an association list with distinct keys. \<^verbatim>\<open>d[k] = v\<close>
  overwrites the value of a present key in place and appends an absent one; \<^verbatim>\<open>d[k]\<close> raises
  \<^verbatim>\<open>KeyError\<close> on an absent key.
\<close>

fun dict_set :: "('k \<times> 'v) list \<Rightarrow> 'k \<Rightarrow> 'v \<Rightarrow> ('k \<times> 'v) list" where
  "dict_set [] k v = [(k, v)]"
| "dict_set ((k', v') # kvs) k v =
     (if k' = k then (k', v) # kvs else (k', v') # dict_set kvs k v)"

definition dict_get :: "('k \<times> 'v) list \<Rightarrow> 'k \<Rightarrow> error + 'v" where
  "dict_get d k = (case map_of d k of None \<Rightarrow> Inl KeyError | Some v \<Rightarrow> Inr v)"

definition keys :: "('k \<times> 'v) list \<Rightarrow> 'k list" where
  "keys d = map fst d"

text \<open>\<^verbatim>\<open>t[i]\<close> on a tuple, for the constant indices 0, 1 and 2 the code uses.\<close>

definition tuple_get :: "'a list \<Rightarrow> nat \<Rightarrow> error + 'a" where
  "tuple_get t i = (if i < length t then Inr (t ! i) else Inl IndexError)"

section \<open>Flows and embeds\<close>

text \<open>
  What \<^verbatim>\<open>self.__pages[flow_type](self.player)\<close> returns: the attributes \<^verbatim>\<open>retrieve_embed\<close>
  reads. Each element of \<open>flow_fields\<close> (the attribute \<^verbatim>\<open>fields\<close>) is a tuple of values.
\<close>

record flow_data =
  title :: string
  colour :: string
  flow_fields :: "pyval list list"
  footer_text :: string
  footer_image :: string
  thumbnail :: string
  image_url :: string

text \<open>
  What \<^verbatim>\<open>Embed.add_field(name=, value=, inline=)\<close> stores. The library keeps \<^verbatim>\<open>str(name)\<close>
  and \<^verbatim>\<open>str(value)\<close>, which for the strings of \<^verbatim>\<open>flow.fields\<close> are the name and the value
  themselves, and the inline flag as it is given.
\<close>

record embed_field =
  field_name :: pyval
  field_value :: pyval
  inline :: pyval

text \<open>The \<^verbatim>\<open>discord.Embed\<close> that \<^verbatim>\<open>retrieve_embed\<close> builds.\<close>

record embed =
  embed_title :: string
  embed_colour :: nat
  embed_fields :: "embed_field list"
  embed_footer :: "string \<times> string"
  embed_thumbnail :: string
  embed_image :: string

definition Embed :: "string \<Rightarrow> nat \<Rightarrow> embed" where
  "Embed t c = \<lparr>embed_title = t, embed_colour = c, embed_fields = [],
                embed_footer = ([], []), embed_thumbnail = [], embed_image = []\<rparr>"

definition add_field :: "embed \<Rightarrow> pyval \<Rightarrow> pyval \<Rightarrow> pyval \<Rightarrow> embed" where
  "add_field e n v i =
     e\<lparr>embed_fields := embed_fields e @ [\<lparr>field_name = n, field_value = v, inline = i\<rparr>]\<rparr>"

text \<open>
  One iteration of the loop over \<^verbatim>\<open>flow.fields\<close> in \<^verbatim>\<open>retrieve_embed\<close>:
  \<^verbatim>\<open>
    if len(field) == 2:
        embed.add_field(name=field[0], value=field[1], inline=True)
    else:
        embed.add_field(name=field[0], value=field[1], inline=field[2])
  \<close>
  A tuple too short for an index raises \<^verbatim>\<open>IndexError\<close>.
\<close>

definition add_flow_field :: "embed \<Rightarrow> pyval list \<Rightarrow> error + embed" where
  "add_flow_field e field =
     (if length field = 2 then
        (case tuple_get field 0 of Inl x \<Rightarrow> Inl x | Inr n \<Rightarrow>
         case tuple_get field 1 of Inl x \<Rightarrow> Inl x | Inr v \<Rightarrow>
           Inr (add_field e n v (PBool True)))
      else
        (case tuple_get field 0 of Inl x \<Rightarrow> Inl x | Inr n \<Rightarrow>
         case tuple_get field 1 of Inl x \<Rightarrow> Inl x | Inr v \<Rightarrow>
         case tuple_get field 2 of Inl x \<Rightarrow> Inl x | Inr i \<Rightarrow>
           Inr (add_field e n v i)))"

fun add_flow_fields :: "embed \<Rightarrow> pyval list list \<Rightarrow> error + embed" where
  "add_flow_fields e [] = Inr e"
| "add_flow_fields e (field # rest) =
     (case add_flow_field e field of Inl x \<Rightarrow> Inl x | Inr e' \<Rightarrow> add_flow_fields e' rest)"

section \<open>Messages, the chat platform and its events\<close>

type_synonym emoji = string

text \<open>A \<^verbatim>\<open>discord.Message\<close>: its identity, author, channel and text.\<close>

record message =
  message_id :: nat
  author :: nat
  channel :: nat
  content :: string

text \<open>The command context: \<^verbatim>\<open>ctx.message\<close> is the message that invoked the command.\<close>

record ctx =
  message :: message

text \<open>A \<^verbatim>\<open>discord.Reaction\<close>: \<^verbatim>\<open>reaction.emoji\<close> and the message it was put on.\<close>

record reaction =
  emoji :: emoji
  reaction_message :: nat

text \<open>
  The objects that the code unpacks or tests against \<^verbatim>\<open>None\<close>.
  \<^verbatim>\<open>a, b = x\<close> succeeds on a 2-tuple only: a tuple of another length raises \<^verbatim>\<open>ValueError\<close>,
  and \<^verbatim>\<open>None\<close>, an \<^verbatim>\<open>Embed\<close>, a \<^verbatim>\<open>Reaction\<close>, a user or a \<^verbatim>\<open>Message\<close> are not iterable,
  which raises \<^verbatim>\<open>TypeError\<close>.
\<close>

datatype pyobj =
  ONone
| OEmbed embed
| OReaction reaction
| OUser nat
| OMessage message
| OTuple "pyobj list"

fun unpack2 :: "pyobj \<Rightarrow> error + pyobj \<times> pyobj" where
  "unpack2 (OTuple [a, b]) = Inr (a, b)"
| "unpack2 (OTuple _) = Inl ValueError"
| "unpack2 _ = Inl TypeError"

text \<open>
  The chat platform is an external collaborator. Its state is kept as far as the code can
  change it: the payload each posted message shows, the reactions on each message, and the
  list of calls issued. Its calls are taken to succeed.
\<close>

datatype call =
  Send nat nat pyobj
| Edit nat pyobj
| AddReaction nat emoji
| RemoveReaction nat emoji nat
| ClearReactions nat

record world =
  next_id :: nat
  bot_user :: nat
  shown :: "nat \<Rightarrow> pyobj option"
  reacts :: "nat \<Rightarrow> (emoji \<times> nat) list"
  calls :: "call list"

text \<open>\<^verbatim>\<open>channel.send(embed=e)\<close>: posts a new message and returns it.\<close>

definition channel_send :: "world \<Rightarrow> nat \<Rightarrow> pyobj \<Rightarrow> nat \<times> world" where
  "channel_send w ch e =
     (next_id w,
      w\<lparr>next_id := Suc (next_id w),
        shown := (shown w)(next_id w \<mapsto> e),
        calls := calls w @ [Send ch (next_id w) e]\<rparr>)"

text \<open>\<^verbatim>\<open>message.edit(embed=e)\<close>: replaces what the message shows.\<close>

definition message_edit :: "world \<Rightarrow> nat \<Rightarrow> pyobj \<Rightarrow> world" where
  "message_edit w m e = w\<lparr>shown := (shown w)(m \<mapsto> e), calls := calls w @ [Edit m e]\<rparr>"

text \<open>\<^verbatim>\<open>message.add_reaction(r)\<close>: the bot's own reaction.\<close>

definition add_reaction :: "world \<Rightarrow> nat \<Rightarrow> emoji \<Rightarrow> world" where
  "add_reaction w m r =
     w\<lparr>reacts := (reacts w)(m := reacts w m @ [(r, bot_user w)]),
       calls := calls w @ [AddReaction m r]\<rparr>"

text \<open>\<^verbatim>\<open>reaction.remove(user)\<close>: removes that user's reaction.\<close>

definition reaction_remove :: "world \<Rightarrow> reaction \<Rightarrow> nat \<Rightarrow> world" where
  "reaction_remove w r u =
     w\<lparr>reacts := (reacts w)(reaction_message r := removeAll (emoji r, u) (reacts w (reaction_message r))),
       calls := calls w @ [RemoveReaction (reaction_message r) (emoji r) u]\<rparr>"

text \<open>
  \<^verbatim>\<open>message.clear_reactions()\<close> is a coroutine function: calling it builds a coroutine
  object, and only awaiting that object runs it. This is what it does when it runs.
\<close>

definition message_clear_reactions :: "nat \<Rightarrow> world \<Rightarrow> world" where
  "message_clear_reactions m w =
     w\<lparr>reacts := (reacts w)(m := []), calls := calls w @ [ClearReactions m]\<rparr>"

text \<open>
  \<^verbatim>\<open>bot.wait_for(event, timeout=60.0, check=...)\<close>. The events still to come are a list: the
  call skips the events its check rejects and returns the first it accepts, which by
  assumption arrives within the 60 seconds; when the list runs out the 60 seconds elapse
  with no accepted event. What happens then is the platform's choice:
  \<^verbatim>\<open>discord.py\<close> documents that \<^verbatim>\<open>wait_for\<close> raises \<^verbatim>\<open>asyncio.TimeoutError\<close>
  (\<open>RaiseTimeoutError\<close>), while the \<^verbatim>\<open>is None\<close> tests of the code expect \<^verbatim>\<open>None\<close>
  (\<open>ReturnNone\<close>). The second component is the events left for later calls.
\<close>

datatype timeout_mode = RaiseTimeoutError | ReturnNone

fun wait_for :: "timeout_mode \<Rightarrow> ('e \<Rightarrow> bool) \<Rightarrow> 'e list \<Rightarrow> (error + 'e option) \<times> 'e list" where
  "wait_for mode check [] =
     (case mode of RaiseTimeoutError \<Rightarrow> (Inl TimeoutError, []) | ReturnNone \<Rightarrow> (Inr None, []))"
| "wait_for mode check (e # es) =
     (if check e then (Inr (Some e), es) else wait_for mode check es)"

text \<open>The value a \<^verbatim>\<open>reaction_add\<close> wait yields: the pair \<^verbatim>\<open>(reaction, user)\<close>, or \<^verbatim>\<open>None\<close>.\<close>

fun reaction_add_value :: "(reaction \<times> nat) option \<Rightarrow> pyobj" where
  "reaction_add_value None = ONone"
| "reaction_add_value (Some (r, u)) = OTuple [OReaction r, OUser u]"

text \<open>\<^verbatim>\<open>reaction.emoji\<close> and \<^verbatim>\<open>reaction.remove(user)\<close> on the unpacked objects.\<close>

fun get_emoji :: "pyobj \<Rightarrow> error + emoji" where
  "get_emoji (OReaction r) = Inr (emoji r)"
| "get_emoji _ = Inl AttributeError"

fun remove :: "world \<Rightarrow> pyobj \<Rightarrow> pyobj \<Rightarrow> error + world" where
  "remove w (OReaction r) (OUser u) = Inr (reaction_remove w r u)"
| "remove w _ _ = Inl AttributeError"

section \<open>The class Menu\<close>

text \<open>
  A binding \<^verbatim>\<open>(function, args)\<close> of \<^verbatim>\<open>self.__reactions\<close>. \<^verbatim>\<open>attach_numbers\<close> binds
  \<^verbatim>\<open>(Menu.change_page, (self, page))\<close>; \<^verbatim>\<open>attach_function\<close> binds any function of the
  caller, kept as a value of type \<open>'f\<close> that the parameter \<open>run\<close> of the menu loop
  interprets. The loop awaits a bound function to its end before it goes on (scheduling is
  cooperative), so a function is a map from the state before it to the state after it, or
  to the exception it raises.
\<close>

datatype 'f callback = ChangePage string | Custom 'f

text \<open>
  The attributes of a \<^verbatim>\<open>Menu\<close> (Python mangles \<^verbatim>\<open>self.__pages\<close> to \<^verbatim>\<open>_Menu__pages\<close>, and
  so on). \<open>Menu_message\<close> is the identity of the posted message, \<^verbatim>\<open>None\<close> before
  \<^verbatim>\<open>deploy_menu\<close>. The bot is the source of the events and the owner of the platform
  state, which the functions below take and return.
\<close>

record 'f Menu =
  Menu_pages :: "(string \<times> pyobj) list"
  Menu_ctx :: ctx
  Menu_reactions :: "(emoji \<times> 'f callback) list"
  Menu_message :: "nat option"
  Menu_exit :: bool

definition Menu_init :: "(string \<times> pyobj) list \<Rightarrow> ctx \<Rightarrow> 'f Menu" where
  "Menu_init pages c =
     \<lparr>Menu_pages = pages, Menu_ctx = c, Menu_reactions = [], Menu_message = None,
      Menu_exit = False\<rparr>"

definition attach_function :: "'f Menu \<Rightarrow> emoji \<Rightarrow> 'f callback \<Rightarrow> 'f Menu" where
  "attach_function s r cb = s\<lparr>Menu_reactions := dict_set (Menu_reactions s) r cb\<rparr>"

text \<open>
  \<^verbatim>\<open>
    for page, i in zip(self.__pages.keys(), range(1, 10)):
        self.__reactions[emojis.PAGES[i]] = (Menu.change_page, (self, page))
  \<close>
  \<^verbatim>\<open>emojis.PAGES\<close> is not part of \<^verbatim>\<open>handler.py\<close>: it is the parameter \<open>PAGES\<close>, a lookup by
  index that may raise.
\<close>

fun attach_numbers_loop ::
  "(nat \<Rightarrow> error + emoji) \<Rightarrow> 'f Menu \<Rightarrow> (string \<times> nat) list \<Rightarrow> error + 'f Menu" where
  "attach_numbers_loop PAGES s [] = Inr s"
| "attach_numbers_loop PAGES s ((page, i) # rest) =
     (case PAGES i of
        Inl x \<Rightarrow> Inl x
      | Inr r \<Rightarrow>
          attach_numbers_loop PAGES
            (s\<lparr>Menu_reactions := dict_set (Menu_reactions s) r (ChangePage page)\<rparr>) rest)"

definition attach_numbers :: "(nat \<Rightarrow> error + emoji) \<Rightarrow> 'f Menu \<Rightarrow> error + 'f Menu" where
  "attach_numbers PAGES s = attach_numbers_loop PAGES s (zip (keys (Menu_pages s)) [1..<10])"

text \<open>\<^verbatim>\<open>return user == self.__ctx.message.author\<close>\<close>

definition Menu_verify :: "'f Menu \<Rightarrow> reaction \<times> nat \<Rightarrow> bool" where
  "Menu_verify s = (\<lambda>(reaction, user). user = author (message (Menu_ctx s)))"

text \<open>
  \<^verbatim>\<open>await self.__message.edit(embed=self.__pages[page])\<close>: the attribute \<^verbatim>\<open>edit\<close> is looked
  up before the argument is evaluated, so a menu with no message raises
  \<^verbatim>\<open>AttributeError\<close> whatever the key.
\<close>

definition change_page :: "'f Menu \<Rightarrow> world \<Rightarrow> string \<Rightarrow> error + 'f Menu \<times> world" where
  "change_page s w page =
     (case Menu_message s of
        None \<Rightarrow> Inl AttributeError
      | Some m \<Rightarrow>
          (case dict_get (Menu_pages s) page of
             Inl x \<Rightarrow> Inl x
           | Inr e \<Rightarrow> Inr (s, message_edit w m e)))"

text \<open>
  \<^verbatim>\<open>self.__ctx.message.clear_reactions()\<close>: the coroutine object for the message of the
  context is built and dropped, never awaited.
\<close>

definition clear_reactions :: "'f Menu \<Rightarrow> world \<Rightarrow> error + 'f Menu \<times> world" where
  "clear_reactions s w =
     (let coroutine = message_clear_reactions (message_id (message (Menu_ctx s)))
      in Inr (s, w))"

text \<open>\<^verbatim>\<open>await func( *args)\<close> for a binding.\<close>

fun run_callback ::
  "('f \<Rightarrow> 'f Menu \<Rightarrow> world \<Rightarrow> error + 'f Menu \<times> world) \<Rightarrow> 'f callback \<Rightarrow>
   'f Menu \<Rightarrow> world \<Rightarrow> error + 'f Menu \<times> world" where
  "run_callback run (ChangePage page) s w = change_page s w page"
| "run_callback run (Custom f) s w = run f s w"

text \<open>
  The loop of \<^verbatim>\<open>deploy_menu\<close>:
  \<^verbatim>\<open>
    while not self.__exit:
        reaction, user = await self.__bot.wait_for('reaction_add', timeout=60.0, check=self.verify)
        if reaction is None:
            break
        emoji = reaction.emoji
        if emoji in self.__reactions.keys():
            func, args = self.__reactions[emoji]
            await func( *args)
        await reaction.remove(user)
  \<close>
  The result carries the events that were never waited for.
\<close>

function menu_loop ::
  "('f \<Rightarrow> 'f Menu \<Rightarrow> world \<Rightarrow> error + 'f Menu \<times> world) \<Rightarrow> timeout_mode \<Rightarrow>
   'f Menu \<Rightarrow> world \<Rightarrow> (reaction \<times> nat) list \<Rightarrow>
   error + 'f Menu \<times> world \<times> (reaction \<times> nat) list" where
  "menu_loop run mode s w evs =
     (if Menu_exit s then Inr (s, w, evs)
      else
        (case wait_for mode (Menu_verify s) evs of
           (Inl x, rest) \<Rightarrow> Inl x
         | (Inr got, rest) \<Rightarrow>
             (case unpack2 (reaction_add_value got) of
                Inl x \<Rightarrow> Inl x
              | Inr (reaction, user) \<Rightarrow>
                  if reaction = ONone then Inr (s, w, rest)
                  else
                    (case get_emoji reaction of
                       Inl x \<Rightarrow> Inl x
                     | Inr emo \<Rightarrow>
                         (case (if emo \<in> set (keys (Menu_reactions s))
                                then (case dict_get (Menu_reactions s) emo of
                                        Inl x \<Rightarrow> Inl x
                                      | Inr cb \<Rightarrow> run_callback run cb s w)
                                else Inr (s, w)) of
                            Inl x \<Rightarrow> Inl x
                          | Inr (s', w') \<Rightarrow>
                              (case remove w' reaction user of
                                 Inl x \<Rightarrow> Inl x
                               | Inr w'' \<Rightarrow> menu_loop run mode s' w'' rest))))))"
  by pat_completeness auto
termination
proof (relation "measure (\<lambda>(run, mode, s, w, evs). length evs)", goal_cases)
  case 1
  show ?case by simp
next
  case (2 run mode s w evs x rest got y reaction user emo r s' w' w'')
  from \<open>unpack2 (reaction_add_value got) = Inr y\<close>
  obtain e where "got = Some e" by (cases got) auto
  with \<open>(x, rest) = wait_for mode (Menu_verify s) evs\<close> \<open>x = Inr got\<close>
  have "wait_for mode (Menu_verify s) evs = (Inr (Some e), rest)" by simp
  then have "length rest < length evs"
    by (induction evs) (auto split: if_splits timeout_mode.splits)
  then show ?case by simp
qed

declare menu_loop.simps [simp del]

text \<open>
  \<^verbatim>\<open>deploy_menu\<close>: posts \<^verbatim>\<open>self.__pages['MAIN']\<close> to the channel of the invoking message,
  adds every bound reaction to the new message, then runs the loop.
\<close>

definition deploy_menu ::
  "('f \<Rightarrow> 'f Menu \<Rightarrow> world \<Rightarrow> error + 'f Menu \<times> world) \<Rightarrow> timeout_mode \<Rightarrow>
   'f Menu \<Rightarrow> world \<Rightarrow> (reaction \<times> nat) list \<Rightarrow>
   error + 'f Menu \<times> world \<times> (reaction \<times> nat) list" where
  "deploy_menu run mode s w evs =
     (case dict_get (Menu_pages s) ''MAIN'' of
        Inl x \<Rightarrow> Inl x
      | Inr main \<Rightarrow>
          (case channel_send w (channel (message (Menu_ctx s))) main of
             (m, w1) \<Rightarrow>
               menu_loop run mode (s\<lparr>Menu_message := Some m\<rparr>)
                 (fold (\<lambda>i w'. add_reaction w' m i) (keys (Menu_reactions s)) w1) evs))"

section \<open>The class Handler\<close>

text \<open>
  \<^verbatim>\<open>retrieve_menu\<close> follows \<^verbatim>\<open>self.__pages[flow_type].pointer\<close>, then \<^verbatim>\<open>pointer.pointer\<close>, reading
  \<^verbatim>\<open>pointer.flow\<close> at each step, until it finds \<^verbatim>\<open>None\<close>. \<open>Pointer f next\<close> is an object
  whose \<^verbatim>\<open>flow\<close> is \<open>f\<close> and whose \<^verbatim>\<open>pointer\<close> is \<open>next\<close>. The chain is a finite linked list
  (a cyclic chain, on which the loop would not end, is not a value of this type).
\<close>

datatype pointer = Pointer string "pointer option"

text \<open>
  A value of \<^verbatim>\<open>self.__pages\<close> of a \<^verbatim>\<open>Handler\<close>: it is called with the player and returns
  the flow, and it has the attribute \<^verbatim>\<open>pointer\<close>.
\<close>

record 'p page =
  page_call :: "'p \<Rightarrow> flow_data"
  page_pointer :: "pointer option"

record 'p Handler =
  Handler_ctx :: ctx
  player :: 'p
  Handler_pages :: "(string \<times> 'p page) list"
  Handler_message :: "nat option"

definition Handler_init :: "ctx \<Rightarrow> (string \<times> 'p page) list \<Rightarrow> 'p \<Rightarrow> 'p Handler" where
  "Handler_init c pages pl =
     \<lparr>Handler_ctx = c, player = pl, Handler_pages = pages, Handler_message = None\<rparr>"

text \<open>
  \<^verbatim>\<open>retrieve_embed\<close>. \<^verbatim>\<open>colours.get_colour\<close> is not part of \<^verbatim>\<open>handler.py\<close>: it is the
  parameter \<open>get_colour\<close>, which may raise.
\<close>

definition retrieve_embed ::
  "(string \<Rightarrow> error + nat) \<Rightarrow> 'p Handler \<Rightarrow> string \<Rightarrow> error + embed" where
  "retrieve_embed get_colour h flow_type =
     (case dict_get (Handler_pages h) flow_type of
        Inl x \<Rightarrow> Inl x
      | Inr pg \<Rightarrow>
          (let flow = page_call pg (player h) in
           case get_colour (colour flow) of
             Inl x \<Rightarrow> Inl x
           | Inr c \<Rightarrow>
               (case add_flow_fields (Embed (title flow) c) (flow_fields flow) of
                  Inl x \<Rightarrow> Inl x
                | Inr e \<Rightarrow>
                    Inr (e\<lparr>embed_footer := (footer_text flow, footer_image flow),
                           embed_thumbnail := thumbnail flow,
                           embed_image := image_url flow\<rparr>))))"

text \<open>\<^verbatim>\<open>return await self.__ctx.send(embed=self.retrieve_embed(flow))\<close>\<close>

definition send ::
  "(string \<Rightarrow> error + nat) \<Rightarrow> 'p Handler \<Rightarrow> world \<Rightarrow> string \<Rightarrow> error + nat \<times> world" where
  "send get_colour h w flow =
     (case retrieve_embed get_colour h flow of
        Inl x \<Rightarrow> Inl x
      | Inr e \<Rightarrow> Inr (channel_send w (channel (message (Handler_ctx h))) (OEmbed e)))"

text \<open>
  \<^verbatim>\<open>
    return message.author == self.__ctx.message.author and \
        message.channel == self.__ctx.message.channel
  \<close>
\<close>

definition Handler_verify :: "'p Handler \<Rightarrow> message \<Rightarrow> bool" where
  "Handler_verify h m \<longleftrightarrow>
     author m = author (message (Handler_ctx h)) \<and>
     channel m = channel (message (Handler_ctx h))"

text \<open>
  \<^verbatim>\<open>
    confirm = await self.__bot.wait_for('message', timeout=60.0, check=self.verify)
    if confirm is not None:
        return confirm.content
    return None
  \<close>
\<close>

definition get_message ::
  "timeout_mode \<Rightarrow> 'p Handler \<Rightarrow> message list \<Rightarrow> error + string option" where
  "get_message mode h msgs =
     (case wait_for mode (Handler_verify h) msgs of
        (Inl x, rest) \<Rightarrow> Inl x
      | (Inr confirm, rest) \<Rightarrow>
          (case confirm of
             Some m \<Rightarrow> Inr (Some (content m))
           | None \<Rightarrow> Inr None))"

text \<open>
  \<^verbatim>\<open>
    if self.message is None:
        self.message = await self.send(flow)
    else:
        await self.message.edit(embed=self.retrieve_embed(flow))
  \<close>
\<close>

definition display ::
  "(string \<Rightarrow> error + nat) \<Rightarrow> 'p Handler \<Rightarrow> world \<Rightarrow> string \<Rightarrow> error + 'p Handler \<times> world" where
  "display get_colour h w flow =
     (case Handler_message h of
        None \<Rightarrow>
          (case send get_colour h w flow of
             Inl x \<Rightarrow> Inl x
           | Inr (m, w') \<Rightarrow> Inr (h\<lparr>Handler_message := Some m\<rparr>, w'))
      | Some m \<Rightarrow>
          (case retrieve_embed get_colour h flow of
             Inl x \<Rightarrow> Inl x
           | Inr e \<Rightarrow> Inr (h, message_edit w m (OEmbed e))))"

text \<open>
  \<^verbatim>\<open>
    embed, message_type = self.retrieve_embed(flow_type)
    pointer = self.__pages[flow_type].pointer
    menu = {'MAIN': embed}
    while pointer is not None:
        menu[pointer.flow] = self.retrieve_embed(pointer.flow)
        pointer = pointer.pointer
    return Menu(menu, self.__ctx, self.__bot)
  \<close>
  The first line unpacks the \<^verbatim>\<open>Embed\<close> that \<^verbatim>\<open>retrieve_embed\<close> returns.
\<close>

fun retrieve_menu_loop ::
  "(string \<Rightarrow> error + nat) \<Rightarrow> 'p Handler \<Rightarrow> (string \<times> pyobj) list \<Rightarrow> pointer option \<Rightarrow>
   error + (string \<times> pyobj) list" where
  "retrieve_menu_loop get_colour h menu None = Inr menu"
| "retrieve_menu_loop get_colour h menu (Some (Pointer f next)) =
     (case retrieve_embed get_colour h f of
        Inl x \<Rightarrow> Inl x
      | Inr e \<Rightarrow> retrieve_menu_loop get_colour h (dict_set menu f (OEmbed e)) next)"

definition retrieve_menu ::
  "(string \<Rightarrow> error + nat) \<Rightarrow> 'p Handler \<Rightarrow> string \<Rightarrow> error + 'f Menu" where
  "retrieve_menu get_colour h flow_type =
     (case retrieve_embed get_colour h flow_type of
        Inl x \<Rightarrow> Inl x
      | Inr r \<Rightarrow>
          (case unpack2 (OEmbed r) of
             Inl x \<Rightarrow> Inl x
           | Inr (embed0, message_type) \<Rightarrow>
               (case dict_get (Handler_pages h) flow_type of
                  Inl x \<Rightarrow> Inl x
                | Inr pg \<Rightarrow>
                    (case retrieve_menu_loop get_colour h [(''MAIN'', embed0)] (page_pointer pg) of
                       Inl x \<Rightarrow> Inl x
                     | Inr menu \<Rightarrow> Inr (Menu_init menu (Handler_ctx h))))))"

text \<open>
  A caller that displays a list of flows one after the other, to speak of the first call
  of \<^verbatim>\<open>display\<close> and of every later one.
\<close>

fun display_all ::
  "(string \<Rightarrow> error + nat) \<Rightarrow> 'p Handler \<Rightarrow> world \<Rightarrow> string list \<Rightarrow> error + 'p Handler \<times> world" where
  "display_all get_colour h w [] = Inr (h, w)"
| "display_all get_colour h w (flow # flows) =
     (case display get_colour h w flow of
        Inl x \<Rightarrow> Inl x
      | Inr (h', w') \<Rightarrow> display_all get_colour h' w' flows)"

section \<open>Concrete data\<close>

text \<open>
  A command sent by user 7 in channel 3, a platform on which nothing was posted yet, and a
  page source whose chain is MAIN, A, B.
\<close>

definition ctx0 :: ctx where
  "ctx0 = \<lparr>message = \<lparr>message_id = 0, author = 7, channel = 3, content = ''!menu''\<rparr>\<rparr>"

definition world0 :: world where
  "world0 = \<lparr>next_id = 1, bot_user = 0, shown = Map.empty, reacts = (\<lambda>m. []), calls = []\<rparr>"

definition get_colour0 :: "string \<Rightarrow> error + nat" where
  "get_colour0 name = (if name = ''red'' then Inr 16711680 else Inl KeyError)"

definition flow0 :: "string \<Rightarrow> pyval list list \<Rightarrow> flow_data" where
  "flow0 t fs =
     \<lparr>title = t, colour = ''red'', flow_fields = fs, footer_text = ''footer'',
      footer_image = ''icon'', thumbnail = ''thumb'', image_url = ''img''\<rparr>"

definition pages0 :: "(string \<times> unit page) list" where
  "pages0 =
     [(''MAIN'', \<lparr>page_call = (\<lambda>p. flow0 ''Main'' [[PStr ''n'', PStr ''v'']]),
                 page_pointer = Some (Pointer ''A'' (Some (Pointer ''B'' None)))\<rparr>),
      (''A'', \<lparr>page_call = (\<lambda>p. flow0 ''Page A'' [[PStr ''n'', PStr ''v'', PBool False]]),
              page_pointer = Some (Pointer ''B'' None)\<rparr>),
      (''B'', \<lparr>page_call = (\<lambda>p. flow0 ''Page B'' []), page_pointer = None\<rparr>)]"

definition handler0 :: "unit Handler" where
  "handler0 = Handler_init ctx0 pages0 ()"

text \<open>
  A menu of two pages with one bound reaction, whose function sets the exit flag; the
  same menu after \<^verbatim>\<open>deploy_menu\<close> posted it as message 1.
\<close>

definition run0 :: "unit \<Rightarrow> unit Menu \<Rightarrow> world \<Rightarrow> error + unit Menu \<times> world" where
  "run0 f s w = Inr (s\<lparr>Menu_exit := True\<rparr>, w)"

definition menu0 :: "unit Menu" where
  "menu0 =
     attach_function
       (Menu_init [(''MAIN'', OEmbed (Embed ''Main'' 1)), (''A'', OEmbed (Embed ''Page A'' 2))] ctx0)
       ''X'' (Custom ())"

definition menu1 :: "unit Menu" where
  "menu1 = menu0\<lparr>Menu_message := Some 1\<rparr>"

definition world1 :: world where
  "world1 = add_reaction (snd (channel_send world0 3 (OEmbed (Embed ''Main'' 1)))) 1 ''X''"

text \<open>A table of page symbols indexed from 0, and a menu of eleven pages.\<close>

definition symbols0 :: "emoji list" where
  "symbols0 =
     [''zero'', ''one'', ''two'', ''three'', ''four'', ''five'', ''six'', ''seven'', ''eight'',
      ''nine'']"

definition PAGES0 :: "nat \<Rightarrow> error + emoji" where
  "PAGES0 i = tuple_get symbols0 i"

definition menu11 :: "unit Menu" where
  "menu11 =
     Menu_init
       (map (\<lambda>k. (k, ONone))
          [''MAIN'', ''STATS'', ''ITEMS'', ''SHOP'', ''QUESTS'', ''GUILD'', ''PETS'', ''CRAFT'',
           ''TRADE'', ''RANKS'', ''HELP'']) ctx0"

text \<open>
  What the loop of \<^verbatim>\<open>retrieve_embed\<close> is expected to add for a field tuple of at least two
  elements: inline when the tuple has two elements, the third element otherwise.
\<close>

definition render_field :: "pyval list \<Rightarrow> embed_field" where
  "render_field field =
     \<lparr>field_name = field ! 0, field_value = field ! 1,
      inline = (if length field = 2 then PBool True else field ! 2)\<rparr>"

section \<open>Rendering of fields\<close>

lemma add_flow_field_ok:
  "2 \<le> length field \<Longrightarrow>
   add_flow_field e field = Inr (e\<lparr>embed_fields := embed_fields e @ [render_field field]\<rparr>)"
  by (auto simp: add_flow_field_def tuple_get_def add_field_def render_field_def)

lemma add_flow_fields_ok:
  "\<forall>field\<in>set fs. 2 \<le> length field \<Longrightarrow>
   add_flow_fields e fs = Inr (e\<lparr>embed_fields := embed_fields e @ map render_field fs\<rparr>)"
proof (induction fs arbitrary: e)
  case Nil
  show ?case by simp
next
  case (Cons f fs)
  then show ?case by (simp add: add_flow_field_ok)
qed

text \<open>
  C6. When the page exists, its colour resolves and every field tuple has at least two
  elements, \<^verbatim>\<open>retrieve_embed\<close> returns an embed with one field per tuple, in order, with the
  tuple's first two elements as name and value; a tuple of exactly two elements is rendered
  inline, and a tuple of three elements gets its third element as the inline flag.
\<close>

theorem retrieve_embed_inline:
  assumes page: "dict_get (Handler_pages h) flow_type = Inr pg"
    and col: "get_colour (colour (page_call pg (player h))) = Inr c"
    and len: "\<forall>field\<in>set (flow_fields (page_call pg (player h))). 2 \<le> length field"
  shows "\<exists>e. retrieve_embed get_colour h flow_type = Inr e \<and>
           length (embed_fields e) = length (flow_fields (page_call pg (player h))) \<and>
           (\<forall>i<length (flow_fields (page_call pg (player h))).
              let field = flow_fields (page_call pg (player h)) ! i; rendered = embed_fields e ! i
              in field_name rendered = field ! 0 \<and> field_value rendered = field ! 1 \<and>
                 (length field = 2 \<longrightarrow> inline rendered = PBool True) \<and>
                 (length field = 3 \<longrightarrow> inline rendered = field ! 2))"
proof -
  let ?flow = "page_call pg (player h)"
  let ?e = "(Embed (title ?flow) c)\<lparr>embed_fields := map render_field (flow_fields ?flow),
              embed_footer := (footer_text ?flow, footer_image ?flow),
              embed_thumbnail := thumbnail ?flow, embed_image := image_url ?flow\<rparr>"
  have "retrieve_embed get_colour h flow_type = Inr ?e"
    using page col add_flow_fields_ok [OF len, of "Embed (title ?flow) c"]
    by (simp add: retrieve_embed_def Embed_def Let_def)
  moreover have "embed_fields ?e = map render_field (flow_fields ?flow)" by simp
  ultimately show ?thesis
    by (intro exI [of _ ?e]) (simp add: render_field_def Let_def)
qed

theorem retrieve_embed_inline_witness:
  "(\<exists>e. retrieve_embed get_colour0 handler0 ''MAIN'' = Inr e \<and>
      length (embed_fields e) = 1 \<and> inline (embed_fields e ! 0) = PBool True) \<and>
   (\<exists>e. retrieve_embed get_colour0 handler0 ''A'' = Inr e \<and>
      length (embed_fields e) = 1 \<and> inline (embed_fields e ! 0) = PBool False)"
  using retrieve_embed_inline [of handler0 "''MAIN''" "snd (pages0 ! 0)" get_colour0 16711680]
    retrieve_embed_inline [of handler0 "''A''" "snd (pages0 ! 1)" get_colour0 16711680]
  by (auto simp: handler0_def Handler_init_def pages0_def dict_get_def get_colour0_def flow0_def
      Let_def)

section \<open>Building a menu\<close>

lemma retrieve_menu_raises: "\<exists>x. retrieve_menu get_colour h flow_type = Inl x"
  by (simp add: retrieve_menu_def split: sum.splits)

text \<open>
  C1. On the page source whose chain is MAIN, A, B, where every page renders,
  \<^verbatim>\<open>retrieve_menu\<close> raises \<^verbatim>\<open>TypeError\<close> and returns no menu: it unpacks the embed of the
  first page into two names.
\<close>

theorem retrieve_menu_chain_raises:
  "retrieve_embed get_colour0 handler0 ''MAIN'' \<noteq> Inl KeyError \<and>
   (retrieve_menu get_colour0 handler0 ''MAIN'' :: error + unit Menu) = Inl TypeError"
  by (simp add: retrieve_menu_def retrieve_embed_def handler0_def Handler_init_def pages0_def
      dict_get_def get_colour0_def flow0_def Embed_def add_flow_field_def tuple_get_def add_field_def)

lemma retrieve_menu_loop_chain_keys:
  "\<exists>menu. retrieve_menu_loop get_colour0 handler0 [(''MAIN'', ONone)]
            (Some (Pointer ''A'' (Some (Pointer ''B'' None)))) = Inr menu \<and>
          keys menu = [''MAIN'', ''A'', ''B'']"
  by (simp add: retrieve_embed_def handler0_def Handler_init_def pages0_def dict_get_def
      get_colour0_def flow0_def Embed_def add_flow_field_def tuple_get_def add_field_def keys_def)

section \<open>The loop of the menu\<close>

lemma wait_for_none:
  "\<forall>e\<in>set evs. \<not> check e \<Longrightarrow>
   wait_for mode check evs =
     (case mode of RaiseTimeoutError \<Rightarrow> (Inl TimeoutError, []) | ReturnNone \<Rightarrow> (Inr None, []))"
  by (induction evs) simp_all

lemma wait_for_first:
  "\<forall>e\<in>set pre. \<not> check e \<Longrightarrow> check e \<Longrightarrow>
   wait_for mode check (pre @ e # post) = (Inr (Some e), post)"
  by (induction pre) simp_all

lemma dict_get_keys: "dict_get d k = Inr v \<Longrightarrow> k \<in> set (keys d)"
  by (auto simp: dict_get_def keys_def split: option.splits dest!: map_of_SomeD intro: rev_image_eqI)

lemma dict_get_absent: "k \<notin> set (keys d) \<Longrightarrow> dict_get d k = Inl KeyError"
  by (simp add: dict_get_def keys_def map_of_eq_None_iff [THEN iffD2])

lemma menu_loop_exit: "Menu_exit s \<Longrightarrow> menu_loop run mode s w evs = Inr (s, w, evs)"
  by (subst menu_loop.simps) simp

lemma menu_loop_skip:
  "\<not> Menu_verify s ev \<Longrightarrow> \<not> Menu_exit s \<Longrightarrow>
   menu_loop run mode s w (ev # evs) = menu_loop run mode s w evs"
  by (simp add: menu_loop.simps [of run mode s w "ev # evs"] menu_loop.simps [of run mode s w evs])

lemma menu_loop_event:
  "\<not> Menu_exit s \<Longrightarrow> Menu_verify s (r, u) \<Longrightarrow>
   menu_loop run mode s w ((r, u) # evs) =
     (case (if emoji r \<in> set (keys (Menu_reactions s))
            then (case dict_get (Menu_reactions s) (emoji r) of
                    Inl x \<Rightarrow> Inl x
                  | Inr cb \<Rightarrow> run_callback run cb s w)
            else Inr (s, w)) of
        Inl x \<Rightarrow> Inl x
      | Inr (s', w') \<Rightarrow> menu_loop run mode s' (reaction_remove w' r u) evs)"
  by (subst menu_loop.simps) (simp split: sum.splits)

lemma menu_loop_timeout:
  "\<not> Menu_exit s \<Longrightarrow> \<forall>ev\<in>set evs. \<not> Menu_verify s ev \<Longrightarrow>
   menu_loop run mode s w evs =
     Inl (case mode of RaiseTimeoutError \<Rightarrow> TimeoutError | ReturnNone \<Rightarrow> TypeError)"
  by (cases mode; subst menu_loop.simps) (simp_all add: wait_for_none)

lemma menu_loop_returns_exit:
  "menu_loop run mode s w evs = Inr (s', w', rest) \<Longrightarrow> Menu_exit s'"
proof (induction evs arbitrary: s w)
  case Nil
  then show ?case
    by (cases "Menu_exit s") (simp_all add: menu_loop_exit menu_loop_timeout)
next
  case (Cons ev evs)
  show ?case
  proof (cases "Menu_exit s")
    case True
    with Cons.prems show ?thesis by (simp add: menu_loop_exit)
  next
    case False
    show ?thesis
    proof (cases "Menu_verify s ev")
      case no: False
      with False Cons show ?thesis by (simp add: menu_loop_skip)
    next
      case True
      obtain r u where ev: "ev = (r, u)" by (cases ev)
      from Cons.prems False True ev Cons.IH show ?thesis
        by (auto simp: menu_loop_event split: sum.splits if_splits)
    qed
  qed
qed

text \<open>
  C2. A deployed menu on which the invoking user never reacts (no event at all, or only a
  reaction of another user) does not end normally: the timeout of \<^verbatim>\<open>wait_for\<close> leaves
  \<^verbatim>\<open>deploy_menu\<close> as \<^verbatim>\<open>asyncio.TimeoutError\<close> when \<^verbatim>\<open>wait_for\<close> raises it, and as the
  \<^verbatim>\<open>TypeError\<close> of unpacking \<^verbatim>\<open>None\<close> into \<^verbatim>\<open>reaction, user\<close> when \<^verbatim>\<open>wait_for\<close> returns \<^verbatim>\<open>None\<close>;
  the test \<^verbatim>\<open>if reaction is None: break\<close> is never reached with \<^verbatim>\<open>None\<close>.
\<close>

theorem deploy_menu_timeout_raises:
  "deploy_menu run0 RaiseTimeoutError menu0 world0 [] = Inl TimeoutError \<and>
   deploy_menu run0 ReturnNone menu0 world0 [] = Inl TypeError \<and>
   deploy_menu run0 RaiseTimeoutError menu0 world0 [(\<lparr>emoji = ''X'', reaction_message = 1\<rparr>, 8)]
     = Inl TimeoutError"
  by (simp add: deploy_menu_def menu0_def Menu_init_def attach_function_def dict_get_def
      menu_loop_timeout Menu_verify_def ctx0_def)

lemma deploy_menu_returns_exit:
  "deploy_menu run mode s w evs = Inr (s', w', rest) \<Longrightarrow> Menu_exit s'"
  by (auto simp: deploy_menu_def split: sum.splits prod.splits dest: menu_loop_returns_exit)

text \<open>
  C4. The claim as stated fails: a reaction of the invoking user on message 99 is accepted
  by the filter of a menu whose message is 1, and its binding is run.
\<close>

theorem Menu_verify_other_message_counterexample:
  "Menu_message menu1 = Some 1 \<and>
   Menu_verify menu1 (\<lparr>emoji = ''X'', reaction_message = 99\<rparr>, 7) \<and>
   menu_loop run0 RaiseTimeoutError menu1 world1 [(\<lparr>emoji = ''X'', reaction_message = 99\<rparr>, 7)] =
     Inr (menu1\<lparr>Menu_exit := True\<rparr>,
          reaction_remove world1 \<lparr>emoji = ''X'', reaction_message = 99\<rparr> 7, [])"
  by (simp add: menu_loop_event menu_loop_exit Menu_verify_def menu1_def menu0_def Menu_init_def
      attach_function_def ctx0_def keys_def dict_get_def run0_def)

text \<open>
  C4, amended. The filter of the menu accepts a reaction event exactly when the reacting
  user is the author of the invoking message, whatever message the reaction is on; an
  event of another user is skipped by the loop: no binding is run for it and its reaction
  is not removed.
\<close>

theorem Menu_verify_user_only:
  "(Menu_verify s (r, u) \<longleftrightarrow> u = author (message (Menu_ctx s))) \<and>
   (\<not> Menu_exit s \<and> u \<noteq> author (message (Menu_ctx s)) \<longrightarrow>
      menu_loop run mode s w ((r, u) # evs) = menu_loop run mode s w evs)"
  by (simp add: menu_loop_skip Menu_verify_def)

theorem Menu_verify_user_only_witness:
  "(Menu_verify menu1 (\<lparr>emoji = ''X'', reaction_message = 1\<rparr>, 8) \<longleftrightarrow> False) \<and>
   menu_loop run0 ReturnNone menu1 world1 [(\<lparr>emoji = ''X'', reaction_message = 1\<rparr>, 8)] =
     menu_loop run0 ReturnNone menu1 world1 []"
  using Menu_verify_user_only [of menu1 "\<lparr>emoji = ''X'', reaction_message = 1\<rparr>" 8 run0 ReturnNone world1 "[]"]
  by (simp add: menu1_def menu0_def Menu_init_def attach_function_def ctx0_def)

text \<open>
  C8. When the loop receives an event of the invoking user whose symbol is bound, and
  the bound function returns with the exit flag set, the loop removes that reaction and
  ends with the state the function returned: the events still to come are left as they
  are, no further call is issued, and no timeout is waited for.
\<close>

theorem exit_flag_stops_loop:
  assumes "\<not> Menu_exit s"
    and "u = author (message (Menu_ctx s))"
    and "dict_get (Menu_reactions s) (emoji r) = Inr cb"
    and "run_callback run cb s w = Inr (s', w')"
    and "Menu_exit s'"
  shows "menu_loop run mode s w ((r, u) # evs) = Inr (s', reaction_remove w' r u, evs)"
  using assms
  by (simp add: menu_loop_event menu_loop_exit Menu_verify_def dict_get_keys)

theorem exit_flag_stops_loop_witness:
  "menu_loop run0 RaiseTimeoutError menu1 world1
     [(\<lparr>emoji = ''X'', reaction_message = 1\<rparr>, 7), (\<lparr>emoji = ''X'', reaction_message = 1\<rparr>, 7)] =
   Inr (menu1\<lparr>Menu_exit := True\<rparr>,
        reaction_remove world1 \<lparr>emoji = ''X'', reaction_message = 1\<rparr> 7,
        [(\<lparr>emoji = ''X'', reaction_message = 1\<rparr>, 7)])"
proof -
  let ?r = "\<lparr>emoji = ''X'', reaction_message = 1\<rparr>"
  have a: "\<not> Menu_exit menu1"
    by (simp add: menu1_def menu0_def Menu_init_def attach_function_def)
  have b: "7 = author (message (Menu_ctx menu1))"
    by (simp add: menu1_def menu0_def Menu_init_def attach_function_def ctx0_def)
  have c: "dict_get (Menu_reactions menu1) (emoji ?r) = Inr (Custom ())"
    by (simp add: menu1_def menu0_def Menu_init_def attach_function_def dict_get_def)
  have d: "run_callback run0 (Custom ()) menu1 world1 = Inr (menu1\<lparr>Menu_exit := True\<rparr>, world1)"
    by (simp add: run0_def)
  have e: "Menu_exit (menu1\<lparr>Menu_exit := True\<rparr>)" by simp
  show ?thesis by (rule exit_flag_stops_loop [OF a b c d e])
qed

lemma change_page_no_message:
  "Menu_message s = None \<Longrightarrow> change_page s w page = Inl AttributeError"
  by (simp add: change_page_def)

text \<open>
  C9. On a menu with a live message, \<^verbatim>\<open>change_page\<close> raises \<^verbatim>\<open>KeyError\<close> for a key absent
  from the pages, and the loop lets that error through when a reaction bound to such a page
  arrives; for a present key it edits the live message to the page at that key, issuing one
  edit call for that message.
\<close>

theorem change_page_lookup:
  assumes "Menu_message s = Some m"
  shows "(page \<notin> set (keys (Menu_pages s)) \<longrightarrow>
            change_page s w page = Inl KeyError \<and>
            (\<not> Menu_exit s \<and> u = author (message (Menu_ctx s)) \<and>
             dict_get (Menu_reactions s) (emoji r) = Inr (ChangePage page) \<longrightarrow>
               menu_loop run mode s w ((r, u) # evs) = Inl KeyError)) \<and>
         (\<forall>e. dict_get (Menu_pages s) page = Inr e \<longrightarrow>
            change_page s w page = Inr (s, message_edit w m e) \<and>
            shown (message_edit w m e) m = Some e \<and>
            calls (message_edit w m e) = calls w @ [Edit m e])"
  using assms
  by (auto simp: change_page_def dict_get_absent message_edit_def menu_loop_event Menu_verify_def
      dict_get_keys)

theorem change_page_lookup_witness:
  "change_page menu1 world1 ''Z'' = Inl KeyError \<and>
   menu_loop run0 RaiseTimeoutError (attach_function menu1 ''one'' (ChangePage ''Z'')) world1
     [(\<lparr>emoji = ''one'', reaction_message = 1\<rparr>, 7)] = Inl KeyError \<and>
   change_page menu1 world1 ''A'' =
     Inr (menu1, message_edit world1 1 (OEmbed (Embed ''Page A'' 2))) \<and>
   shown (message_edit world1 1 (OEmbed (Embed ''Page A'' 2))) 1 = Some (OEmbed (Embed ''Page A'' 2))"
  using change_page_lookup [of menu1 1 "''Z''" world1]
    change_page_lookup [of "attach_function menu1 ''one'' (ChangePage ''Z'')" 1 "''Z''" world1 7
      "\<lparr>emoji = ''one'', reaction_message = 1\<rparr>" run0 RaiseTimeoutError "[]"]
    change_page_lookup [of menu1 1 "''A''" world1]
  by (simp add: menu1_def menu0_def Menu_init_def attach_function_def ctx0_def dict_get_def keys_def)

lemma clear_reactions_target:
  "m \<noteq> message_id (message (Menu_ctx s)) \<Longrightarrow>
   reacts (message_clear_reactions (message_id (message (Menu_ctx s))) w) m = reacts w m"
  by (simp add: message_clear_reactions_def)

text \<open>
  C10. \<^verbatim>\<open>clear_reactions\<close> returns with the menu and the platform unchanged: the reactions
  of every message, the live message of the menu included, are what they were, and no
  call was issued. The coroutine it builds and drops is the one for the invoking message.
\<close>

theorem clear_reactions_no_effect: "clear_reactions s w = Inr (s, w)"
  by (simp add: clear_reactions_def)

section \<open>Waiting for a message\<close>

lemma get_message_content:
  "\<forall>x\<in>set pre. \<not> Handler_verify h x \<Longrightarrow> Handler_verify h m \<Longrightarrow>
   get_message mode h (pre @ m # post) = Inr (Some (content m))"
  by (simp add: get_message_def wait_for_first)

lemma get_message_no_message:
  "\<forall>x\<in>set msgs. \<not> Handler_verify h x \<Longrightarrow>
   get_message mode h msgs =
     (case mode of RaiseTimeoutError \<Rightarrow> Inl TimeoutError | ReturnNone \<Rightarrow> Inr None)"
  by (cases mode) (simp_all add: get_message_def wait_for_none)

text \<open>
  C3. When no message of the invoking user arrives in the channel within the timeout (no
  message at all, or only a message of another user) and \<^verbatim>\<open>wait_for\<close> raises
  \<^verbatim>\<open>asyncio.TimeoutError\<close>, \<^verbatim>\<open>get_message\<close> lets the error through and returns nothing.
\<close>

theorem get_message_timeout_raises:
  "get_message RaiseTimeoutError handler0 [] = Inl TimeoutError \<and>
   get_message RaiseTimeoutError handler0
     [\<lparr>message_id = 5, author = 8, channel = 3, content = ''hello''\<rparr>] = Inl TimeoutError"
  by (simp add: get_message_def Handler_verify_def handler0_def Handler_init_def ctx0_def)

section \<open>Displaying one message\<close>

lemma retrieve_embed_message [simp]:
  "retrieve_embed gc (h\<lparr>Handler_message := x\<rparr>) f = retrieve_embed gc h f"
  by (simp add: retrieve_embed_def cong: sum.case_cong)

lemma display_first:
  "Handler_message h = None \<Longrightarrow> retrieve_embed gc h f = Inr e \<Longrightarrow>
   display gc h w f =
     Inr (h\<lparr>Handler_message := Some (next_id w)\<rparr>,
          snd (channel_send w (channel (message (Handler_ctx h))) (OEmbed e)))"
  by (simp add: display_def send_def channel_send_def)

lemma display_later:
  "Handler_message h = Some m \<Longrightarrow> retrieve_embed gc h f = Inr e \<Longrightarrow>
   display gc h w f = Inr (h, message_edit w m (OEmbed e))"
  by (simp add: display_def)

lemma display_all_later:
  "Handler_message h = Some m \<Longrightarrow> \<forall>f\<in>set fs. retrieve_embed gc h f = Inr (e f) \<Longrightarrow>
   \<exists>w'. display_all gc h w fs = Inr (h, w') \<and>
        calls w' = calls w @ map (\<lambda>f. Edit m (OEmbed (e f))) fs"
proof (induction fs arbitrary: w)
  case Nil
  show ?case by simp
next
  case (Cons f fs)
  from Cons.prems have d: "display gc h w f = Inr (h, message_edit w m (OEmbed (e f)))"
    by (simp add: display_later)
  from Cons.IH [of "message_edit w m (OEmbed (e f))"] Cons.prems
  obtain w' where "display_all gc h (message_edit w m (OEmbed (e f))) fs = Inr (h, w')"
    and "calls w' = calls (message_edit w m (OEmbed (e f))) @ map (\<lambda>f. Edit m (OEmbed (e f))) fs"
    by auto
  with d show ?case by (simp add: message_edit_def)
qed

text \<open>
  C7. On a handler with no message yet, a sequence of calls of \<^verbatim>\<open>display\<close> whose flows all
  render issues exactly one send, for the first flow, stores the message it created, and
  then one edit of that same message for each later flow, in order, and nothing else.
\<close>

theorem display_posts_once:
  assumes fresh: "Handler_message h = None"
    and renders: "\<forall>f\<in>set (flow # flows). retrieve_embed get_colour h f = Inr (e f)"
  shows "\<exists>h' w'. display_all get_colour h w (flow # flows) = Inr (h', w') \<and>
           Handler_message h' = Some (next_id w) \<and>
           calls w' = calls w @
             Send (channel (message (Handler_ctx h))) (next_id w) (OEmbed (e flow)) #
             map (\<lambda>f. Edit (next_id w) (OEmbed (e f))) flows"
proof -
  let ?h = "h\<lparr>Handler_message := Some (next_id w)\<rparr>"
  let ?w = "snd (channel_send w (channel (message (Handler_ctx h))) (OEmbed (e flow)))"
  have first: "display get_colour h w flow = Inr (?h, ?w)"
    using fresh renders by (simp add: display_first)
  have "Handler_message ?h = Some (next_id w)" by simp
  moreover have "\<forall>f\<in>set flows. retrieve_embed get_colour ?h f = Inr (e f)"
    using renders by simp
  ultimately obtain w' where rest: "display_all get_colour ?h ?w flows = Inr (?h, w')"
    and c: "calls w' = calls ?w @ map (\<lambda>f. Edit (next_id w) (OEmbed (e f))) flows"
    using display_all_later [of ?h "next_id w" flows get_colour e ?w] by blast
  from first rest have "display_all get_colour h w (flow # flows) = Inr (?h, w')" by simp
  moreover from c have "calls w' = calls w @
      Send (channel (message (Handler_ctx h))) (next_id w) (OEmbed (e flow)) #
      map (\<lambda>f. Edit (next_id w) (OEmbed (e f))) flows"
    by (simp add: channel_send_def)
  ultimately show ?thesis by (intro exI [of _ ?h] exI [of _ w']) simp
qed

theorem display_posts_once_witness:
  "\<exists>h' w'. display_all get_colour0 handler0 world0 [''MAIN'', ''A''] = Inr (h', w') \<and>
     Handler_message h' = Some 1 \<and>
     calls w' = [Send 3 1 (OEmbed (projr (retrieve_embed get_colour0 handler0 ''MAIN''))),
                 Edit 1 (OEmbed (projr (retrieve_embed get_colour0 handler0 ''A'')))]"
proof -
  have a: "Handler_message handler0 = None" by (simp add: handler0_def Handler_init_def)
  have b: "\<forall>f\<in>set [''MAIN'', ''A''].
             retrieve_embed get_colour0 handler0 f = Inr (projr (retrieve_embed get_colour0 handler0 f))"
    by (simp add: retrieve_embed_def handler0_def Handler_init_def pages0_def dict_get_def
        get_colour0_def flow0_def Embed_def add_flow_field_def tuple_get_def add_field_def)
  show ?thesis
    using display_posts_once [OF a b, of world0]
    by (simp add: world0_def handler0_def Handler_init_def ctx0_def)
qed

section \<open>Numbered reactions\<close>

lemma dict_set_fresh: "k \<notin> set (keys d) \<Longrightarrow> dict_set d k v = d @ [(k, v)]"
  by (induction d) (auto simp: keys_def)

lemma attach_numbers_loop_fresh:
  assumes "\<forall>(p, i)\<in>set pis. PAGES i = Inr (symb i)"
    and "distinct (map (\<lambda>(p, i). symb i) pis)"
    and "\<forall>(p, i)\<in>set pis. symb i \<notin> set (keys (Menu_reactions s))"
  shows "attach_numbers_loop PAGES s pis =
           Inr (s\<lparr>Menu_reactions := Menu_reactions s @ map (\<lambda>(p, i). (symb i, ChangePage p)) pis\<rparr>)"
  using assms
proof (induction pis arbitrary: s)
  case Nil
  show ?case by simp
next
  case (Cons a pis)
  obtain p i where a: "a = (p, i)" by (cases a)
  let ?s = "s\<lparr>Menu_reactions := Menu_reactions s @ [(symb i, ChangePage p)]\<rparr>"
  have step: "attach_numbers_loop PAGES s (a # pis) = attach_numbers_loop PAGES ?s pis"
    using Cons.prems a by (simp add: dict_set_fresh)
  have "\<forall>(p, j)\<in>set pis. symb j \<notin> set (keys (Menu_reactions ?s))"
    using Cons.prems a by (auto simp: keys_def rev_image_eqI)
  with Cons.IH [of ?s] Cons.prems a
  have "attach_numbers_loop PAGES ?s pis =
          Inr (?s\<lparr>Menu_reactions := Menu_reactions ?s @ map (\<lambda>(p, i). (symb i, ChangePage p)) pis\<rparr>)"
    by simp
  with step a show ?case by simp
qed

text \<open>
  C5. The claim as stated fails: on a menu whose pages are MAIN and A, the page MAIN takes
  the first page symbol and A the second, where the claim binds symbols to the pages other
  than MAIN only.
\<close>

theorem attach_numbers_binds_MAIN_counterexample:
  "attach_numbers PAGES0 menu0 =
     Inr (menu0\<lparr>Menu_reactions :=
            [(''X'', Custom ()), (''one'', ChangePage ''MAIN''), (''two'', ChangePage ''A'')]\<rparr>)"
proof -
  have upt: "[Suc 0..<10] = [Suc 0, 2, 3, 4, 5, 6, 7, 8, 9]" by code_simp
  show ?thesis
    by (simp add: attach_numbers_def upt menu0_def Menu_init_def attach_function_def keys_def
        PAGES0_def tuple_get_def symbols0_def)
qed

lemma attach_numbers_fresh:
  assumes table: "\<forall>i\<in>{1..9}. PAGES i = Inr (symb i)"
    and inj: "inj_on symb {1..9}"
    and unbound: "\<forall>i\<in>{1..9}. symb i \<notin> set (keys (Menu_reactions s))"
  shows "attach_numbers PAGES s =
           Inr (s\<lparr>Menu_reactions := Menu_reactions s @
                  map (\<lambda>(page, i). (symb i, ChangePage page)) (zip (keys (Menu_pages s)) [1..<10])\<rparr>) \<and>
         length (zip (keys (Menu_pages s)) [1..<10]) = min (length (Menu_pages s)) 9"
proof -
  let ?pis = "zip (keys (Menu_pages s)) [1..<10]"
  have rng: "\<forall>(p, i)\<in>set ?pis. i \<in> {1..9}"
    by (auto dest!: set_zip_rightD)
  have "map (\<lambda>(p, i). symb i) ?pis = map symb (map snd ?pis)"
    by (simp add: case_prod_unfold)
  moreover have "distinct (map snd ?pis)"
    by (simp add: map_snd_zip_take distinct_take)
  moreover have "set (map snd ?pis) \<subseteq> {1..9}"
    using rng by auto
  ultimately have d: "distinct (map (\<lambda>(p, i). symb i) ?pis)"
    using inj by (simp add: distinct_map inj_on_subset del: map_map)
  have "attach_numbers_loop PAGES s ?pis =
          Inr (s\<lparr>Menu_reactions := Menu_reactions s @ map (\<lambda>(p, i). (symb i, ChangePage p)) ?pis\<rparr>)"
    using rng table unbound by (intro attach_numbers_loop_fresh d) auto
  then show ?thesis by (simp add: attach_numbers_def keys_def)
qed

lemma map_of_dict_set: "map_of (dict_set d k v) = (map_of d)(k \<mapsto> v)"
  by (induction d) (auto simp: fun_eq_iff)

lemma attach_numbers_loop_maps:
  assumes "\<forall>(p, i)\<in>set pis. PAGES i = Inr (symb i)"
  shows "\<exists>s'. attach_numbers_loop PAGES s pis = Inr s' \<and>
           s' = s\<lparr>Menu_reactions := Menu_reactions s'\<rparr> \<and>
           map_of (Menu_reactions s') =
             map_of (Menu_reactions s) ++
             map_of (rev (map (\<lambda>(p, i). (symb i, ChangePage p)) pis))"
  using assms
proof (induction pis arbitrary: s)
  case Nil
  show ?case by simp
next
  case (Cons a pis)
  obtain p i where a: "a = (p, i)" by (cases a)
  let ?s = "s\<lparr>Menu_reactions := dict_set (Menu_reactions s) (symb i) (ChangePage p)\<rparr>"
  have step: "attach_numbers_loop PAGES s (a # pis) = attach_numbers_loop PAGES ?s pis"
    using Cons.prems a by simp
  from Cons.IH [of ?s] Cons.prems
  obtain s' where run: "attach_numbers_loop PAGES ?s pis = Inr s'"
    and frame: "s' = ?s\<lparr>Menu_reactions := Menu_reactions s'\<rparr>"
    and m: "map_of (Menu_reactions s') =
              map_of (Menu_reactions ?s) ++
              map_of (rev (map (\<lambda>(p, i). (symb i, ChangePage p)) pis))"
    by auto
  from frame have "s' = s\<lparr>Menu_reactions := Menu_reactions s'\<rparr>" by simp
  moreover from m a have "map_of (Menu_reactions s') =
      map_of (Menu_reactions s) ++
      map_of (rev (map (\<lambda>(p, i). (symb i, ChangePage p)) (a # pis)))"
    by (simp add: map_of_dict_set map_add_upd_left)
  ultimately show ?case using step run by simp
qed

lemma map_of_rev_distinct:
  "distinct (map fst xs) \<Longrightarrow> map_of (rev xs) = map_of xs"
  by (rule map_of_inject_set [THEN iffD2]) (simp_all add: rev_map [symmetric])

text \<open>
  C5, amended. When the table of page symbols gives distinct symbols at the indices 1 to
  9, \<^verbatim>\<open>attach_numbers\<close> raises nothing and binds, for the first nine page keys in iteration
  order, MAIN included, the symbol at index i to the change of page to the i-th key,
  replacing what that symbol was bound to; every other binding and the rest of the menu
  stay as they were. It binds as many symbols as there are pages, at most 9, so that of
  eleven pages the first nine are bound and the last two are not.
\<close>

theorem attach_numbers_binds:
  assumes table: "\<forall>i\<in>{1..9}. PAGES i = Inr (symb i)"
    and inj: "inj_on symb {1..9}"
  shows "\<exists>s'. attach_numbers PAGES s = Inr s' \<and>
           s' = s\<lparr>Menu_reactions := Menu_reactions s'\<rparr> \<and>
           (\<forall>(page, i)\<in>set (zip (keys (Menu_pages s)) [1..<10]).
              dict_get (Menu_reactions s') (symb i) = Inr (ChangePage page)) \<and>
           (\<forall>r. r \<notin> symb ` {1..min (length (Menu_pages s)) 9} \<longrightarrow>
              map_of (Menu_reactions s') r = map_of (Menu_reactions s) r) \<and>
           length (zip (keys (Menu_pages s)) [1..<10]) = min (length (Menu_pages s)) 9 \<and>
           card (symb ` {1..min (length (Menu_pages s)) 9}) = min (length (Menu_pages s)) 9"
proof -
  let ?pis = "zip (keys (Menu_pages s)) [1..<10]"
  let ?new = "map (\<lambda>(p, i). (symb i, ChangePage p)) ?pis"
  let ?n = "min (length (Menu_pages s)) 9"
  have snd: "map snd ?pis = [1..<Suc ?n]"
    by (simp add: map_snd_zip_take keys_def min_def)
  then have idx: "snd ` set ?pis = {1..?n}"
    by (metis atLeastLessThanSuc_atLeastAtMost set_map set_upt)
  have fst: "map fst ?new = map symb [1..<Suc ?n]"
    unfolding snd [symmetric] by (simp add: case_prod_unfold)
  have sub: "{1..?n} \<subseteq> {1..9}" by auto
  have inj': "inj_on symb {1..?n}"
    using inj sub by (rule inj_on_subset)
  have d: "distinct (map fst ?new)"
    unfolding fst distinct_map using inj'
    by (simp only: distinct_upt set_upt atLeastLessThanSuc_atLeastAtMost simp_thms)
  have "\<forall>(p, i)\<in>set ?pis. PAGES i = Inr (symb i)"
    using table by (auto dest!: set_zip_rightD)
  from attach_numbers_loop_maps [OF this, of s]
  obtain s' where loop: "attach_numbers_loop PAGES s ?pis = Inr s'"
    and frame: "s' = s\<lparr>Menu_reactions := Menu_reactions s'\<rparr>"
    and m0: "map_of (Menu_reactions s') = map_of (Menu_reactions s) ++ map_of (rev ?new)"
    by blast
  have run: "attach_numbers PAGES s = Inr s'"
    using loop by (simp only: attach_numbers_def)
  have m: "map_of (Menu_reactions s') = map_of (Menu_reactions s) ++ map_of ?new"
    using m0 by (simp only: map_of_rev_distinct [OF d])
  have bound: "\<forall>(page, i)\<in>set ?pis. dict_get (Menu_reactions s') (symb i) = Inr (ChangePage page)"
  proof (clarify)
    fix page i
    assume "(page, i) \<in> set ?pis"
    then have "(symb i, ChangePage page) \<in> set ?new" by force
    with d have "map_of ?new (symb i) = Some (ChangePage page)" by (rule map_of_is_SomeI)
    then have "(map_of (Menu_reactions s) ++ map_of ?new) (symb i) = Some (ChangePage page)"
      by (rule map_add_find_right)
    then have "map_of (Menu_reactions s') (symb i) = Some (ChangePage page)"
      by (simp only: m)
    then show "dict_get (Menu_reactions s') (symb i) = Inr (ChangePage page)"
      by (simp add: dict_get_def)
  qed
  have img: "fst ` set ?new = symb ` {1..?n}"
    using fst by (metis atLeastLessThanSuc_atLeastAtMost list.set_map set_upt)
  have other: "\<forall>r. r \<notin> symb ` {1..?n} \<longrightarrow>
      map_of (Menu_reactions s') r = map_of (Menu_reactions s) r"
  proof (intro allI impI)
    fix r
    assume "r \<notin> symb ` {1..?n}"
    then have "r \<notin> fst ` set ?new" by (simp only: img not_False_eq_True)
    then have "r \<notin> dom (map_of ?new)" by (simp only: dom_map_of_conv_image_fst not_False_eq_True)
    then have "(map_of (Menu_reactions s) ++ map_of ?new) r = map_of (Menu_reactions s) r"
      by (rule map_add_dom_app_simps(3))
    then show "map_of (Menu_reactions s') r = map_of (Menu_reactions s) r"
      by (simp only: m)
  qed
  have len: "length ?pis = ?n" by (simp add: keys_def)
  have card: "card (symb ` {1..?n}) = ?n"
    using inj' by (simp add: card_image)
  from run frame bound other len card show ?thesis by blast
qed


theorem attach_numbers_binds_witness:
  "\<exists>s'. attach_numbers PAGES0 (attach_function menu11 ''two'' (Custom ())) = Inr s' \<and>
     dict_get (Menu_reactions s') ''one'' = Inr (ChangePage ''MAIN'') \<and>
     dict_get (Menu_reactions s') ''two'' = Inr (ChangePage ''STATS'') \<and>
     dict_get (Menu_reactions s') ''nine'' = Inr (ChangePage ''TRADE'') \<and>
     map_of (Menu_reactions s') ''X'' = None \<and>
     length (Menu_pages menu11) = 11"
proof -
  let ?s = "attach_function menu11 ''two'' (Custom ())"
  have len: "length symbols0 = 10" by (simp add: symbols0_def)
  have a: "\<forall>i\<in>{1..9}. PAGES0 i = Inr (symbols0 ! i)"
    by (simp add: PAGES0_def tuple_get_def len)
  have "distinct symbols0" by (simp add: symbols0_def)
  then have b: "inj_on (\<lambda>i. symbols0 ! i) {1..9}"
    by (auto simp: inj_on_def nth_eq_iff_index_eq len)
  have upt: "[1..<10] = [1, 2, 3, 4, 5, 6, 7, 8, 9 :: nat]" by code_simp
  have pages: "keys (Menu_pages ?s) =
      [''MAIN'', ''STATS'', ''ITEMS'', ''SHOP'', ''QUESTS'', ''GUILD'', ''PETS'', ''CRAFT'',
       ''TRADE'', ''RANKS'', ''HELP'']"
    by (simp add: attach_function_def menu11_def Menu_init_def keys_def)
  have n: "min (length (Menu_pages ?s)) 9 = 9"
    by (simp add: attach_function_def menu11_def Menu_init_def)
  from attach_numbers_binds [OF a b, of ?s]
  obtain s' where run: "attach_numbers PAGES0 ?s = Inr s'"
    and bound: "\<forall>(page, i)\<in>set (zip (keys (Menu_pages ?s)) [1..<10]).
                  dict_get (Menu_reactions s') (symbols0 ! i) = Inr (ChangePage page)"
    and other: "\<forall>r. r \<notin> (\<lambda>i. symbols0 ! i) ` {1..min (length (Menu_pages ?s)) 9} \<longrightarrow>
                  map_of (Menu_reactions s') r = map_of (Menu_reactions ?s) r"
    by blast
  from bound have one: "dict_get (Menu_reactions s') ''one'' = Inr (ChangePage ''MAIN'')"
    and two: "dict_get (Menu_reactions s') ''two'' = Inr (ChangePage ''STATS'')"
    and nine: "dict_get (Menu_reactions s') ''nine'' = Inr (ChangePage ''TRADE'')"
    unfolding pages upt by (simp_all add: symbols0_def)
  have "''X'' \<notin> (\<lambda>i. symbols0 ! i) ` {1..9}"
    by (auto simp: symbols0_def nth_Cons split: nat.splits)
  with other n have "map_of (Menu_reactions s') ''X'' = map_of (Menu_reactions ?s) ''X''"
    by simp
  then have x: "map_of (Menu_reactions s') ''X'' = None"
    by (simp add: attach_function_def menu11_def Menu_init_def)
  have "length (Menu_pages menu11) = 11" by (simp add: menu11_def Menu_init_def)
  with run one two nine x show ?thesis by blast
qed

end
